theory Spec2Isabelle
  imports Complex_Main "HOL-Library.AList"
begin

section \<open>The beehive example: data model\<close>

text \<open>
  The module \<^verbatim>\<open>scarab_examples/beehive/beehive.py\<close> defines four entities: \<^verbatim>\<open>Bee\<close>,
  \<^verbatim>\<open>Beehive\<close>, \<^verbatim>\<open>OutsideTemperature\<close> and \<^verbatim>\<open>BeehiveDisplayModel\<close>. Each handler mutates
  its own entity; here a handler takes the entity's state and returns the state it leaves
  behind. A handler that can raise returns a pair: the exception (if any) and the state
  of the entity at the moment the handler is left, so that a mutation made before a
  raise stays visible.

  Temperatures are Python floats. They are modelled as exact real numbers: comparisons
  agree with the floats' (no NaN is modelled), and arithmetic is without rounding.
  Simulation times and the bee counters are Python integers (\<open>int\<close>).
\<close>

datatype error = AssertionError | KeyError | ZeroDivisionError

text \<open>The two behaviour flags, shared by a bee and by the snapshot of a bee that the
  framework delivers to the hive.\<close>

record bee_flags =
  is_buzzing :: bool
  is_fanning :: bool

record bee = bee_flags +
  buzz_temp :: real
  fan_temp :: real

text \<open>The snapshot of a bee as the hive receives it (the tests build it from the
  properties \<^verbatim>\<open>guid\<close>, \<^verbatim>\<open>is_buzzing\<close>, \<^verbatim>\<open>is_fanning\<close>).\<close>

record remote_bee = bee_flags +
  guid :: nat

text \<open>\<^verbatim>\<open>__known_bees\<close> is a dict from guid to snapshot: an association list in insertion
  order, read with \<open>map_of\<close>, written with \<open>AList.update\<close>, popped with \<open>AList.delete\<close>.\<close>

record beehive =
  current_temp :: real
  outside_temp :: real
  buzzing_impact :: real
  fanning_impact :: real
  number_bees :: int
  number_bees_buzzing :: int
  number_bees_fanning :: int
  known_bees :: "(nat \<times> remote_bee) list"

record outside_temperature =
  min_temp :: real
  max_temp :: real
  increment_change :: real
  minute_temps :: "real list"
  current_temp_ot :: real

record beehive_display_model =
  beehive_dm :: "beehive option"
  outside_temp_dm :: "real option"
  min_outside_temp :: real
  max_outside_temp :: real
  min_hive_temp :: real
  max_hive_temp :: real
  min_number_bees :: int
  max_number_bees :: int
  min_number_bees_buzzing :: int
  max_number_bees_buzzing :: int
  min_number_bees_fanning :: int
  max_number_bees_fanning :: int
  previous_time_dm :: int
  new_time_dm :: int

section \<open>Bee\<close>

text \<open>\<^verbatim>\<open>Bee.__init__\<close>: \<^verbatim>\<open>assert buzz_temp\<close> and \<^verbatim>\<open>assert fan_temp\<close> fail on a value that
  is falsy, that is \<^verbatim>\<open>None\<close> or zero. Nothing else is checked.\<close>

definition Bee_init :: "real option \<Rightarrow> real option \<Rightarrow> error + bee" where
  "Bee_init buzz fan =
     (case buzz of
        None \<Rightarrow> Inl AssertionError
      | Some b \<Rightarrow>
          if b = 0 then Inl AssertionError
          else (case fan of
                  None \<Rightarrow> Inl AssertionError
                | Some f \<Rightarrow>
                    if f = 0 then Inl AssertionError
                    else Inr \<lparr>is_buzzing = False, is_fanning = False,
                              buzz_temp = b, fan_temp = f\<rparr>))"

text \<open>\<^verbatim>\<open>Bee.handle_temperature_change\<close>: the hive snapshot carries \<^verbatim>\<open>current_temp\<close>;
  the handler acts only when that property is among the changed ones.\<close>

definition handle_temperature_change :: "beehive \<Rightarrow> string list \<Rightarrow> bee \<Rightarrow> bee" where
  "handle_temperature_change hive changed_properties self =
     (if ''current_temp'' \<in> set changed_properties then
        (let new_temp = current_temp hive in
         if new_temp < buzz_temp self then self\<lparr>is_buzzing := True, is_fanning := False\<rparr>
         else if new_temp > fan_temp self then self\<lparr>is_buzzing := False, is_fanning := True\<rparr>
         else self\<lparr>is_buzzing := False, is_fanning := False\<rparr>)
      else self)"

section \<open>Beehive\<close>

definition Beehive_init :: "real \<Rightarrow> real \<Rightarrow> real \<Rightarrow> beehive" where
  "Beehive_init start_temp buzzing fanning =
     \<lparr>current_temp = start_temp, outside_temp = start_temp,
      buzzing_impact = buzzing, fanning_impact = fanning,
      number_bees = 0, number_bees_buzzing = 0, number_bees_fanning = 0,
      known_bees = []\<rparr>"

text \<open>The recounts over the values of the dict.\<close>

definition get_number_bees_buzzing :: "beehive \<Rightarrow> int" where
  "get_number_bees_buzzing self =
     sum_list (map (\<lambda>b. 1) (filter is_buzzing (map snd (known_bees self))))"

definition get_number_bees_fanning :: "beehive \<Rightarrow> int" where
  "get_number_bees_fanning self =
     sum_list (map (\<lambda>b. 1) (filter is_fanning (map snd (known_bees self))))"

definition handle_outside_temperature_update ::
  "outside_temperature \<Rightarrow> string list \<Rightarrow> beehive \<Rightarrow> error option \<times> beehive" where
  "handle_outside_temperature_update ot changed_properties self =
     (if changed_properties = [] then (Some AssertionError, self)
      else (None, self\<lparr>outside_temp := current_temp_ot ot\<rparr>))"

text \<open>The local variable \<^verbatim>\<open>outside_temp_impact\<close> of \<^verbatim>\<open>Beehive.handle_time_update\<close>,
  with the two branches of the source.\<close>

definition outside_temp_impact :: "beehive \<Rightarrow> real" where
  "outside_temp_impact self =
     (if outside_temp self > current_temp self
      then 0.2 * (outside_temp self - current_temp self)
      else 0.2 * (current_temp self - outside_temp self))"

definition Beehive_handle_time_update ::
  "int \<Rightarrow> int \<Rightarrow> beehive \<Rightarrow> error option \<times> beehive" where
  "Beehive_handle_time_update previous_time new_time self =
     (if \<not> new_time > previous_time then (Some AssertionError, self)
      else
        (let bee_impact =
               of_int (get_number_bees_buzzing self) * buzzing_impact self
               - of_int (get_number_bees_fanning self) * fanning_impact self;
             total_bee_impact = bee_impact * of_int (new_time - previous_time)
         in (None,
             self\<lparr>current_temp :=
                    current_temp self + outside_temp_impact self + total_bee_impact\<rparr>)))"

definition handle_new_bee :: "remote_bee \<Rightarrow> beehive \<Rightarrow> beehive" where
  "handle_new_bee bee self =
     (let s1 = self\<lparr>number_bees := number_bees self + 1\<rparr>;
          s2 = s1\<lparr>known_bees := AList.update (guid bee) bee (known_bees s1)\<rparr>;
          s3 = (if is_fanning bee
                then s2\<lparr>number_bees_fanning := number_bees_fanning s2 + 1\<rparr> else s2);
          s4 = (if is_buzzing bee
                then s3\<lparr>number_bees_buzzing := number_bees_buzzing s3 + 1\<rparr> else s3)
      in s4)"

text \<open>\<^verbatim>\<open>handle_dead_bee\<close> decrements \<^verbatim>\<open>number_bees\<close> first; \<^verbatim>\<open>pop\<close> then raises
  \<^verbatim>\<open>KeyError\<close> on a guid that is not tracked. The flags read afterwards are those of the
  popped (tracked) snapshot.\<close>

definition handle_dead_bee :: "remote_bee \<Rightarrow> beehive \<Rightarrow> error option \<times> beehive" where
  "handle_dead_bee bee self =
     (let s1 = self\<lparr>number_bees := number_bees self - 1\<rparr> in
      case map_of (known_bees s1) (guid bee) of
        None \<Rightarrow> (Some KeyError, s1)
      | Some popped \<Rightarrow>
          (let s2 = s1\<lparr>known_bees := AList.delete (guid bee) (known_bees s1)\<rparr>;
               s3 = (if is_fanning popped
                     then s2\<lparr>number_bees_fanning := number_bees_fanning s2 - 1\<rparr> else s2);
               s4 = (if is_buzzing popped
                     then s3\<lparr>number_bees_buzzing := number_bees_buzzing s3 - 1\<rparr> else s3)
           in (None, s4)))"

text \<open>\<^verbatim>\<open>handle_bee_update\<close>: \<^verbatim>\<open>assert bee and changed_properties\<close> fails on an empty
  \<^verbatim>\<open>changed_properties\<close> (a snapshot object is truthy); the lookup of the previous
  snapshot raises \<^verbatim>\<open>KeyError\<close> on an untracked guid, before anything is written.\<close>

definition handle_bee_update ::
  "remote_bee \<Rightarrow> string list \<Rightarrow> beehive \<Rightarrow> error option \<times> beehive" where
  "handle_bee_update bee changed_properties self =
     (if changed_properties = [] then (Some AssertionError, self)
      else
        case map_of (known_bees self) (guid bee) of
          None \<Rightarrow> (Some KeyError, self)
        | Some prev_bee \<Rightarrow>
            (let s1 = self\<lparr>known_bees := AList.update (guid bee) bee (known_bees self)\<rparr>;
                 s2 = (if is_fanning prev_bee \<and> \<not> is_fanning bee
                       then s1\<lparr>number_bees_fanning := number_bees_fanning s1 - 1\<rparr> else s1);
                 s3 = (if is_fanning bee \<and> \<not> is_fanning prev_bee
                       then s2\<lparr>number_bees_fanning := number_bees_fanning s2 + 1\<rparr> else s2);
                 s4 = (if is_buzzing prev_bee \<and> \<not> is_buzzing bee
                       then s3\<lparr>number_bees_buzzing := number_bees_buzzing s3 - 1\<rparr> else s3);
                 s5 = (if is_buzzing bee \<and> \<not> is_buzzing prev_bee
                       then s4\<lparr>number_bees_buzzing := number_bees_buzzing s4 + 1\<rparr> else s4)
             in (None, s5)))"

section \<open>OutsideTemperature\<close>

text \<open>The body of \<^verbatim>\<open>OutsideTemperature.__init__\<close> after its two assertions: the two
  \<^verbatim>\<open>for minute in range(0, int(12 * 60))\<close> loops append 720 samples each. The increment
  and the samples are the exact values; the source computes them on doubles, and its
  samples are these values rounded. The two agree where the arithmetic on doubles is
  exact, as for the bounds 0 and 720 of the tests (increment 1, integer samples); the
  length of the table and the index of a lookup do not depend on rounding. Nothing below
  compares one sample with another or with a bound for general bounds.\<close>

definition OutsideTemperature_make :: "real \<Rightarrow> real \<Rightarrow> outside_temperature" where
  "OutsideTemperature_make lo hi =
     (let inc = (hi - lo) / (24 * 60 / 2);
          temps = map (\<lambda>minute. lo + inc * real minute) [0..<12 * 60]
                  @ map (\<lambda>minute. hi - inc * real minute) [0..<12 * 60]
      in \<lparr>min_temp = lo, max_temp = hi, increment_change = inc,
          minute_temps = temps, current_temp_ot = temps ! 0\<rparr>)"

definition OutsideTemperature_init ::
  "real option \<Rightarrow> real option \<Rightarrow> error + outside_temperature" where
  "OutsideTemperature_init lo hi =
     (case lo of
        None \<Rightarrow> Inl AssertionError
      | Some l \<Rightarrow>
          (case hi of
             None \<Rightarrow> Inl AssertionError
           | Some h \<Rightarrow> Inr (OutsideTemperature_make l h)))"

text \<open>\<^verbatim>\<open>OutsideTemperature.handle_time_update\<close> asserts only that \<^verbatim>\<open>previous_time\<close> is
  not \<^verbatim>\<open>None\<close>. Python's \<^verbatim>\<open>%\<close> with a positive modulus is never negative, as \<open>mod\<close> on
  \<open>int\<close>, so the index is in range; an empty table would raise \<^verbatim>\<open>ZeroDivisionError\<close>.\<close>

definition OutsideTemperature_handle_time_update ::
  "int option \<Rightarrow> int \<Rightarrow> outside_temperature \<Rightarrow> error option \<times> outside_temperature" where
  "OutsideTemperature_handle_time_update previous_time new_time self =
     (if previous_time = None then (Some AssertionError, self)
      else if length (minute_temps self) = 0 then (Some ZeroDivisionError, self)
      else (None,
            self\<lparr>current_temp_ot :=
                   minute_temps self ! nat (new_time mod int (length (minute_temps self)))\<rparr>))"

section \<open>BeehiveDisplayModel\<close>

definition BeehiveDisplayModel_init :: beehive_display_model where
  "BeehiveDisplayModel_init =
     \<lparr>beehive_dm = None, outside_temp_dm = None,
      min_outside_temp = 1000000, max_outside_temp = 0,
      min_hive_temp = 1000000, max_hive_temp = 0,
      min_number_bees = 1000000, max_number_bees = 0,
      min_number_bees_buzzing = 1000000, max_number_bees_buzzing = 0,
      min_number_bees_fanning = 1000000, max_number_bees_fanning = 0,
      previous_time_dm = -1, new_time_dm = 0\<rparr>"

definition BeehiveDisplayModel_handle_time_update ::
  "int option \<Rightarrow> int \<Rightarrow> beehive_display_model \<Rightarrow> error option \<times> beehive_display_model" where
  "BeehiveDisplayModel_handle_time_update previous_time new_time self =
     (case previous_time of
        None \<Rightarrow> (Some AssertionError, self)
      | Some p \<Rightarrow> (None, self\<lparr>previous_time_dm := p, new_time_dm := new_time\<rparr>))"

section \<open>Sequences of notifications\<close>

text \<open>The framework delivers notifications one at a time, each handled to completion.
  A handler that raises leaves the entity in the state it had reached; the next
  notification finds it there.\<close>

datatype bee_event =
    Created remote_bee
  | Destroyed remote_bee
  | Changed remote_bee "string list"

fun deliver :: "bee_event \<Rightarrow> beehive \<Rightarrow> error option \<times> beehive" where
  "deliver (Created bee) self = (None, handle_new_bee bee self)"
| "deliver (Destroyed bee) self = handle_dead_bee bee self"
| "deliver (Changed bee changed_properties) self = handle_bee_update bee changed_properties self"

fun run :: "bee_event list \<Rightarrow> beehive \<Rightarrow> beehive" where
  "run [] self = self"
| "run (e # es) self = run es (snd (deliver e self))"

fun created_guids :: "bee_event list \<Rightarrow> nat list" where
  "created_guids [] = []"
| "created_guids (Created bee # es) = guid bee # created_guids es"
| "created_guids (e # es) = created_guids es"

fun number_created :: "bee_event list \<Rightarrow> int" where
  "number_created [] = 0"
| "number_created (Created bee # es) = 1 + number_created es"
| "number_created (e # es) = number_created es"

fun number_destroyed :: "bee_event list \<Rightarrow> int" where
  "number_destroyed [] = 0"
| "number_destroyed (Destroyed bee # es) = 1 + number_destroyed es"
| "number_destroyed (e # es) = number_destroyed es"

text \<open>Time-advance notifications delivered to an \<^verbatim>\<open>OutsideTemperature\<close>, each a pair
  of previous and new time.\<close>

fun run_time_updates ::
  "(int option \<times> int) list \<Rightarrow> outside_temperature \<Rightarrow> outside_temperature" where
  "run_time_updates [] self = self"
| "run_time_updates ((previous_time, new_time) # ts) self =
     run_time_updates ts (snd (OutsideTemperature_handle_time_update previous_time new_time self))"

section \<open>Scenarios of the test suite\<close>

text \<open>The hive of \<^verbatim>\<open>test_time_update\<close> (start temperature 10, impacts 0.5 and 0.25,
  three buzzing bees and one fanning bee), and the notifications of
  \<^verbatim>\<open>test_adding_and_removing_bees\<close> followed by one change.\<close>

definition test_time_update_hive :: beehive where
  "test_time_update_hive =
     run [Created \<lparr>is_buzzing = True, is_fanning = False, guid = 1\<rparr>,
          Created \<lparr>is_buzzing = True, is_fanning = False, guid = 2\<rparr>,
          Created \<lparr>is_buzzing = True, is_fanning = False, guid = 3\<rparr>,
          Created \<lparr>is_buzzing = False, is_fanning = True, guid = 4\<rparr>]
       (Beehive_init 10 0.5 0.25)"

definition test_adding_and_removing_bees :: "bee_event list" where
  "test_adding_and_removing_bees =
     [Created \<lparr>is_buzzing = True, is_fanning = False, guid = 1\<rparr>,
      Created \<lparr>is_buzzing = False, is_fanning = True, guid = 2\<rparr>,
      Created \<lparr>is_buzzing = False, is_fanning = True, guid = 3\<rparr>,
      Created \<lparr>is_buzzing = False, is_fanning = False, guid = 4\<rparr>,
      Destroyed \<lparr>is_buzzing = False, is_fanning = False, guid = 1\<rparr>,
      Destroyed \<lparr>is_buzzing = False, is_fanning = False, guid = 3\<rparr>,
      Changed \<lparr>is_buzzing = True, is_fanning = False, guid = 4\<rparr> [''is_buzzing'']]"

section \<open>The tracked bees and the recounts\<close>

text \<open>How the dict operations act on the keys and on a recount over the values.\<close>

lemma count_update_fresh:
  "k \<notin> set (map fst xs) \<Longrightarrow>
   sum_list (map (\<lambda>b. 1::int) (filter P (map snd (AList.update k v xs))))
     = sum_list (map (\<lambda>b. 1) (filter P (map snd xs))) + (if P v then 1 else 0)"
  by (induction xs) auto

lemma count_update_tracked:
  "map_of xs k = Some old \<Longrightarrow>
   sum_list (map (\<lambda>b. 1::int) (filter P (map snd (AList.update k v xs))))
     = sum_list (map (\<lambda>b. 1) (filter P (map snd xs)))
       - (if P old then 1 else 0) + (if P v then 1 else 0)"
  by (induction xs) (auto split: if_splits)

lemma count_delete_tracked:
  "map_of xs k = Some old \<Longrightarrow> distinct (map fst xs) \<Longrightarrow>
   sum_list (map (\<lambda>b. 1::int) (filter P (map snd (AList.delete k xs))))
     = sum_list (map (\<lambda>b. 1) (filter P (map snd xs))) - (if P old then 1 else 0)"
proof (induction xs)
  case Nil
  then show ?case by simp
next
  case (Cons p xs)
  show ?case
  proof (cases "fst p = k")
    case True
    with Cons.prems have "k \<notin> set (map fst xs)" and "snd p = old" by auto
    then have "AList.delete k xs = xs"
      by (simp add: AList.delete_idem image_iff) 
    with True \<open>snd p = old\<close> show ?thesis by (cases p) auto
  next
    case False
    with Cons show ?thesis by (cases p) auto
  qed
qed

lemma map_of_tracked: "k \<in> set (map fst xs) \<Longrightarrow> \<exists>v. map_of xs k = Some v"
  by (induction xs) auto

lemma map_of_untracked: "k \<notin> set (map fst xs) \<Longrightarrow> map_of xs k = None"
  by (induction xs) auto

lemma keys_update: "set (map fst (AList.update k v xs)) = insert k (set (map fst xs))"
  by (induction xs) auto

lemma keys_delete: "set (map fst (AList.delete k xs)) = set (map fst xs) - {k}"
  by (induction xs) auto

lemma distinct_keys_update: "distinct (map fst xs) \<Longrightarrow> distinct (map fst (AList.update k v xs))"
  by (rule distinct_update)

lemma distinct_keys_delete: "distinct (map fst xs) \<Longrightarrow> distinct (map fst (AList.delete k xs))"
  by (rule distinct_delete)

lemma handle_new_bee_fields:
  "known_bees (handle_new_bee bee h) = AList.update (guid bee) bee (known_bees h)"
  "number_bees (handle_new_bee bee h) = number_bees h + 1"
  "number_bees_buzzing (handle_new_bee bee h) = number_bees_buzzing h + (if is_buzzing bee then 1 else 0)"
  "number_bees_fanning (handle_new_bee bee h) = number_bees_fanning h + (if is_fanning bee then 1 else 0)"
  by (simp_all add: handle_new_bee_def Let_def)

lemma handle_dead_bee_untracked:
  "map_of (known_bees h) (guid bee) = None \<Longrightarrow>
   handle_dead_bee bee h = (Some KeyError, h\<lparr>number_bees := number_bees h - 1\<rparr>)"
  by (simp add: handle_dead_bee_def Let_def)

lemma handle_dead_bee_fields:
  assumes "map_of (known_bees h) (guid bee) = Some popped"
  shows "fst (handle_dead_bee bee h) = None"
    "known_bees (snd (handle_dead_bee bee h)) = AList.delete (guid bee) (known_bees h)"
    "number_bees (snd (handle_dead_bee bee h)) = number_bees h - 1"
    "number_bees_buzzing (snd (handle_dead_bee bee h)) = number_bees_buzzing h - (if is_buzzing popped then 1 else 0)"
    "number_bees_fanning (snd (handle_dead_bee bee h)) = number_bees_fanning h - (if is_fanning popped then 1 else 0)"
  using assms by (simp_all add: handle_dead_bee_def Let_def)

lemma handle_bee_update_fields:
  assumes "map_of (known_bees h) (guid bee) = Some prev_bee" and "cp \<noteq> []"
  shows "fst (handle_bee_update bee cp h) = None"
    "known_bees (snd (handle_bee_update bee cp h)) = AList.update (guid bee) bee (known_bees h)"
    "number_bees (snd (handle_bee_update bee cp h)) = number_bees h"
    "number_bees_buzzing (snd (handle_bee_update bee cp h)) =
       number_bees_buzzing h - (if is_buzzing prev_bee then 1 else 0) + (if is_buzzing bee then 1 else 0)"
    "number_bees_fanning (snd (handle_bee_update bee cp h)) =
       number_bees_fanning h - (if is_fanning prev_bee then 1 else 0) + (if is_fanning bee then 1 else 0)"
  using assms by (simp_all add: handle_bee_update_def Let_def)

lemma handle_bee_update_rejected:
  "cp = [] \<or> map_of (known_bees h) (guid bee) = None \<Longrightarrow>
   handle_bee_update bee cp h = (Some (if cp = [] then AssertionError else KeyError), h)"
  by (auto simp: handle_bee_update_def)

text \<open>Each notification keeps the keys distinct and both counters equal to their
  recounts, provided that a created notification is for an identifier that is not
  tracked. A destroyed or changed notification for an untracked identifier raises
  before the counters or the mapping are written.\<close>

lemma step_created:
  assumes "distinct (map fst (known_bees h))"
    and "number_bees_buzzing h = get_number_bees_buzzing h"
    and "number_bees_fanning h = get_number_bees_fanning h"
    and fresh: "guid bee \<notin> set (map fst (known_bees h))"
  shows "distinct (map fst (known_bees (handle_new_bee bee h)))"
    and "number_bees_buzzing (handle_new_bee bee h) = get_number_bees_buzzing (handle_new_bee bee h)"
    and "number_bees_fanning (handle_new_bee bee h) = get_number_bees_fanning (handle_new_bee bee h)"
proof -
  show "distinct (map fst (known_bees (handle_new_bee bee h)))"
    using assms(1) by (simp only: handle_new_bee_fields distinct_keys_update)
  show "number_bees_buzzing (handle_new_bee bee h) = get_number_bees_buzzing (handle_new_bee bee h)"
    using assms(2)
    by (simp only: handle_new_bee_fields get_number_bees_buzzing_def count_update_fresh [OF fresh])
  show "number_bees_fanning (handle_new_bee bee h) = get_number_bees_fanning (handle_new_bee bee h)"
    using assms(3)
    by (simp only: handle_new_bee_fields get_number_bees_fanning_def count_update_fresh [OF fresh])
qed

lemma step_destroyed:
  assumes "distinct (map fst (known_bees h))"
    and "number_bees_buzzing h = get_number_bees_buzzing h"
    and "number_bees_fanning h = get_number_bees_fanning h"
  shows "distinct (map fst (known_bees (snd (handle_dead_bee bee h))))
       \<and> number_bees_buzzing (snd (handle_dead_bee bee h))
           = get_number_bees_buzzing (snd (handle_dead_bee bee h))
       \<and> number_bees_fanning (snd (handle_dead_bee bee h))
           = get_number_bees_fanning (snd (handle_dead_bee bee h))"
proof (cases "map_of (known_bees h) (guid bee)")
  case None
  then show ?thesis
    using assms
    by (simp add: handle_dead_bee_untracked get_number_bees_buzzing_def
        get_number_bees_fanning_def)
next
  case (Some popped)
  note f = handle_dead_bee_fields [OF Some]
  show ?thesis
  proof (intro conjI)
    show "distinct (map fst (known_bees (snd (handle_dead_bee bee h))))"
      using assms(1) by (simp only: f distinct_keys_delete)
    show "number_bees_buzzing (snd (handle_dead_bee bee h))
            = get_number_bees_buzzing (snd (handle_dead_bee bee h))"
      using assms(2)
      by (simp only: f get_number_bees_buzzing_def count_delete_tracked [OF Some assms(1)])
    show "number_bees_fanning (snd (handle_dead_bee bee h))
            = get_number_bees_fanning (snd (handle_dead_bee bee h))"
      using assms(3)
      by (simp only: f get_number_bees_fanning_def count_delete_tracked [OF Some assms(1)])
  qed
qed

lemma step_changed:
  assumes "distinct (map fst (known_bees h))"
    and "number_bees_buzzing h = get_number_bees_buzzing h"
    and "number_bees_fanning h = get_number_bees_fanning h"
  shows "distinct (map fst (known_bees (snd (handle_bee_update bee cp h))))
       \<and> number_bees_buzzing (snd (handle_bee_update bee cp h))
           = get_number_bees_buzzing (snd (handle_bee_update bee cp h))
       \<and> number_bees_fanning (snd (handle_bee_update bee cp h))
           = get_number_bees_fanning (snd (handle_bee_update bee cp h))"
proof (cases "cp = [] \<or> map_of (known_bees h) (guid bee) = None")
  case True
  then have unchanged: "snd (handle_bee_update bee cp h) = h"
    by (simp add: handle_bee_update_rejected)
  from assms show ?thesis by (simp only: unchanged)
next
  case False
  then obtain prev_bee where p: "map_of (known_bees h) (guid bee) = Some prev_bee"
    and c: "cp \<noteq> []"
    by auto
  note f = handle_bee_update_fields [OF p c]
  show ?thesis
  proof (intro conjI)
    show "distinct (map fst (known_bees (snd (handle_bee_update bee cp h))))"
      using assms(1) by (simp only: f distinct_keys_update)
    show "number_bees_buzzing (snd (handle_bee_update bee cp h))
           = get_number_bees_buzzing (snd (handle_bee_update bee cp h))"
      using assms(2)
      by (simp only: f get_number_bees_buzzing_def count_update_tracked [OF p])
    show "number_bees_fanning (snd (handle_bee_update bee cp h))
           = get_number_bees_fanning (snd (handle_bee_update bee cp h))"
      using assms(3)
      by (simp only: f get_number_bees_fanning_def count_update_tracked [OF p])
  qed
qed

lemma number_bees_deliver:
  "number_bees (snd (deliver e h)) =
     number_bees h + number_created [e] - number_destroyed [e]"
proof (cases e)
  case (Created bee)
  then show ?thesis by (simp add: handle_new_bee_fields)
next
  case (Destroyed bee)
  then show ?thesis by (simp add: handle_dead_bee_def Let_def split: option.splits)
next
  case (Changed bee cp)
  then show ?thesis by (simp add: handle_bee_update_def Let_def split: option.splits)
qed

lemma number_bees_run:
  "number_bees (run evs h) = number_bees h + number_created evs - number_destroyed evs"
proof (induction evs arbitrary: h)
  case Nil
  then show ?case by simp
next
  case (Cons e es)
  have "number_bees (run (e # es) h) = number_bees (snd (deliver e h)) + number_created es - number_destroyed es"
    using Cons.IH by simp
  also have "\<dots> = number_bees h + number_created (e # es) - number_destroyed (e # es)"
    unfolding number_bees_deliver by (cases e) simp_all
  finally show ?case .
qed


lemma keys_deliver:
  "set (map fst (known_bees (snd (deliver e h))))
     \<subseteq> set (map fst (known_bees h)) \<union> set (created_guids [e])"
proof (cases e)
  case (Created bee)
  then show ?thesis by (simp add: handle_new_bee_fields keys_update del: set_map)
next
  case (Destroyed bee)
  show ?thesis
  proof (cases "map_of (known_bees h) (guid bee)")
    case None
    then show ?thesis using Destroyed by (simp add: handle_dead_bee_untracked del: set_map)
  next
    case (Some popped)
    have "set (map fst (known_bees h)) - {guid bee} \<subseteq> set (map fst (known_bees h))"
      by (rule Diff_subset)
    then show ?thesis using Destroyed
      by (simp only: deliver.simps handle_dead_bee_fields [OF Some] keys_delete)
         (simp del: set_map add: le_supI1)
  qed
next
  case (Changed bee cp)
  show ?thesis
  proof (cases "cp = [] \<or> map_of (known_bees h) (guid bee) = None")
    case True
    then show ?thesis using Changed by (simp add: handle_bee_update_rejected)
  next
    case False
    then obtain prev_bee where p: "map_of (known_bees h) (guid bee) = Some prev_bee"
      and c: "cp \<noteq> []"
      by auto
    have "guid bee \<in> set (map fst (known_bees h))"
    proof (rule ccontr)
      assume "guid bee \<notin> set (map fst (known_bees h))"
      from map_of_untracked [OF this] p show False by simp
    qed
    then have "insert (guid bee) (set (map fst (known_bees h))) = set (map fst (known_bees h))"
      by (rule insert_absorb)
    then show ?thesis
      using Changed by (simp only: deliver.simps handle_bee_update_fields [OF p c] keys_update) simp
  qed
qed

lemma keys_run:
  "set (map fst (known_bees (run evs h)))
     \<subseteq> set (map fst (known_bees h)) \<union> set (created_guids evs)"
proof (induction evs arbitrary: h)
  case Nil
  then show ?case by simp
next
  case (Cons e es)
  have "set (map fst (known_bees (run (e # es) h)))
          \<subseteq> set (map fst (known_bees (snd (deliver e h)))) \<union> set (created_guids es)"
    using Cons.IH by simp
  also have "\<dots> \<subseteq> (set (map fst (known_bees h)) \<union> set (created_guids [e]))
                    \<union> set (created_guids es)"
    using keys_deliver [of e h] by (rule Un_mono [OF _ subset_refl])
  also have "\<dots> = set (map fst (known_bees h)) \<union> set (created_guids (e # es))"
    by (cases e) auto
  finally show ?case .
qed


lemma step_deliver:
  assumes "distinct (map fst (known_bees h))"
    and "number_bees_buzzing h = get_number_bees_buzzing h"
    and "number_bees_fanning h = get_number_bees_fanning h"
    and "set (map fst (known_bees h)) \<inter> set (created_guids [e]) = {}"
  shows "distinct (map fst (known_bees (snd (deliver e h))))
       \<and> number_bees_buzzing (snd (deliver e h)) = get_number_bees_buzzing (snd (deliver e h))
       \<and> number_bees_fanning (snd (deliver e h)) = get_number_bees_fanning (snd (deliver e h))"
proof (cases e)
  case (Created bee)
  with assms(4) have fresh: "guid bee \<notin> set (map fst (known_bees h))"
    by (simp del: set_map)
  from step_created [OF assms(1-3) fresh] Created show ?thesis by simp
next
  case (Destroyed bee)
  from step_destroyed [OF assms(1-3), of bee] Destroyed show ?thesis by simp
next
  case (Changed bee cp)
  from step_changed [OF assms(1-3), of bee cp] Changed show ?thesis by simp
qed

lemma created_guids_Cons: "created_guids (e # es) = created_guids [e] @ created_guids es"
  by (cases e) simp_all

lemma run_counters:
  assumes "distinct (created_guids evs)"
    and "set (map fst (known_bees h)) \<inter> set (created_guids evs) = {}"
    and "distinct (map fst (known_bees h))"
    and "number_bees_buzzing h = get_number_bees_buzzing h"
    and "number_bees_fanning h = get_number_bees_fanning h"
  shows "number_bees_buzzing (run evs h) = get_number_bees_buzzing (run evs h)
       \<and> number_bees_fanning (run evs h) = get_number_bees_fanning (run evs h)"
  using assms
proof (induction evs arbitrary: h)
  case Nil
  then show ?case by simp
next
  case (Cons e es)
  let ?h' = "snd (deliver e h)"
  from Cons.prems(1) have d: "distinct (created_guids es)"
    and apart: "set (created_guids [e]) \<inter> set (created_guids es) = {}"
    by (simp_all add: created_guids_Cons [of e es])
  from Cons.prems(2) have now: "set (map fst (known_bees h)) \<inter> set (created_guids [e]) = {}"
    and later: "set (map fst (known_bees h)) \<inter> set (created_guids es) = {}"
    unfolding created_guids_Cons [of e es] by auto
  from step_deliver [OF Cons.prems(3-5) now]
  have s: "distinct (map fst (known_bees ?h'))"
    "number_bees_buzzing ?h' = get_number_bees_buzzing ?h'"
    "number_bees_fanning ?h' = get_number_bees_fanning ?h'"
    by blast+
  have "set (map fst (known_bees ?h')) \<subseteq> set (map fst (known_bees h)) \<union> set (created_guids [e])"
    by (rule keys_deliver)
  with apart later have k: "set (map fst (known_bees ?h')) \<inter> set (created_guids es) = {}"
    by blast
  from Cons.IH [OF d k s] show ?case by simp
qed

section \<open>The temperature table\<close>

lemma minute_temps_length: "length (minute_temps (OutsideTemperature_make lo hi)) = 1440"
  by (simp add: OutsideTemperature_make_def Let_def)

lemma minute_temps_ascending:
  "i < 720 \<Longrightarrow>
   minute_temps (OutsideTemperature_make lo hi) ! i = lo + (hi - lo) / 720 * real i"
  by (simp add: OutsideTemperature_make_def Let_def nth_append)

lemma minute_temps_descending:
  "720 \<le> i \<Longrightarrow> i < 1440 \<Longrightarrow>
   minute_temps (OutsideTemperature_make lo hi) ! i = hi - (hi - lo) / 720 * real (i - 720)"
  by (simp add: OutsideTemperature_make_def Let_def nth_append)

lemma time_update_table:
  "minute_temps (snd (OutsideTemperature_handle_time_update p t ot)) = minute_temps ot"
  by (simp add: OutsideTemperature_handle_time_update_def)

lemma run_time_updates_table: "minute_temps (run_time_updates ts ot) = minute_temps ot"
  by (induction ts arbitrary: ot) (auto simp: time_update_table)

lemma time_update_lookup:
  assumes "length (minute_temps ot) = 1440"
  shows "OutsideTemperature_handle_time_update (Some p) t ot
           = (None, ot\<lparr>current_temp_ot := minute_temps ot ! nat (t mod 1440)\<rparr>)"
  using assms by (simp add: OutsideTemperature_handle_time_update_def)

lemma test_time_update_hive_eq:
  "test_time_update_hive =
     \<lparr>current_temp = 10, outside_temp = 10, buzzing_impact = 0.5, fanning_impact = 0.25,
      number_bees = 4, number_bees_buzzing = 3, number_bees_fanning = 1,
      known_bees = [(1, \<lparr>is_buzzing = True, is_fanning = False, guid = 1\<rparr>),
                    (2, \<lparr>is_buzzing = True, is_fanning = False, guid = 2\<rparr>),
                    (3, \<lparr>is_buzzing = True, is_fanning = False, guid = 3\<rparr>),
                    (4, \<lparr>is_buzzing = False, is_fanning = True, guid = 4\<rparr>)]\<rparr>"
  by (simp add: test_time_update_hive_def Beehive_init_def handle_new_bee_def Let_def)

section \<open>Claim C1: the influence of the outside temperature\<close>

text \<open>C1 says that the outside-temperature contribution of a time-advance step is 0.2
  times the gap between the outside and the hive temperature, signed toward the outside
  temperature, so that a hive warmer than the outside is cooled. The source adds the
  absolute gap in both branches: the contribution is never negative. A hive at 20 with
  the outside at 10 and no bees goes to 22 in one step, not to 18.\<close>

theorem outside_temp_impact_never_cools:
  "outside_temp_impact self = 0.2 * \<bar>outside_temp self - current_temp self\<bar>
   \<and> outside_temp (snd (handle_outside_temperature_update (OutsideTemperature_make 10 80)
         [''current_temp''] (Beehive_init 20 0.5 0.25))) = 10
   \<and> current_temp (snd (handle_outside_temperature_update (OutsideTemperature_make 10 80)
         [''current_temp''] (Beehive_init 20 0.5 0.25))) = 20
   \<and> current_temp (snd (Beehive_handle_time_update 0 1
         (snd (handle_outside_temperature_update (OutsideTemperature_make 10 80)
            [''current_temp''] (Beehive_init 20 0.5 0.25))))) = 22"
proof -
  have "current_temp_ot (OutsideTemperature_make 10 80) = 10"
    by (simp add: OutsideTemperature_make_def Let_def nth_append)
  then have h: "snd (handle_outside_temperature_update (OutsideTemperature_make 10 80)
         [''current_temp''] (Beehive_init 20 0.5 0.25)) = (Beehive_init 20 0.5 0.25)\<lparr>outside_temp := 10\<rparr>"
    by (simp add: handle_outside_temperature_update_def)
  have "outside_temp_impact self = 0.2 * \<bar>outside_temp self - current_temp self\<bar>"
    by (simp add: outside_temp_impact_def)
  moreover have "current_temp (snd (Beehive_handle_time_update 0 1
         ((Beehive_init 20 0.5 0.25)\<lparr>outside_temp := 10\<rparr>))) = 22"
    by (simp add: Beehive_handle_time_update_def Beehive_init_def Let_def
        outside_temp_impact_def get_number_bees_buzzing_def get_number_bees_fanning_def)
  ultimately show ?thesis unfolding h by (simp add: Beehive_init_def)
qed

section \<open>Claim C2: the time-advance example\<close>

text \<open>C2: a hive at temperature 10, with the outside at 10, impacts 0.5 and 0.25, three
  buzzing bees and one fanning bee, is at exactly 11.25 after one minute and at exactly
  12.75 after a further minute. (The second step adds 1.25 for the bees and 0.25 for the
  gap of 1.25 to the outside temperature.)\<close>

theorem time_update_example:
  assumes "current_temp h = 10" and "outside_temp h = 10"
    and "buzzing_impact h = 0.5" and "fanning_impact h = 0.25"
    and "get_number_bees_buzzing h = 3" and "get_number_bees_fanning h = 1"
  shows "Beehive_handle_time_update t (t + 1) h = (None, h\<lparr>current_temp := 11.25\<rparr>)
       \<and> Beehive_handle_time_update (t + 1) (t + 2) (h\<lparr>current_temp := 11.25\<rparr>)
           = (None, h\<lparr>current_temp := 12.75\<rparr>)"
proof -
  have recount: "get_number_bees_buzzing (h\<lparr>current_temp := 11.25\<rparr>) = 3"
    "get_number_bees_fanning (h\<lparr>current_temp := 11.25\<rparr>) = 1"
    using assms(5,6) by (simp_all add: get_number_bees_buzzing_def get_number_bees_fanning_def)
  have "Beehive_handle_time_update t (t + 1) h = (None, h\<lparr>current_temp := 11.25\<rparr>)"
    using assms by (simp add: Beehive_handle_time_update_def Let_def outside_temp_impact_def)
  moreover have "Beehive_handle_time_update (t + 1) (t + 2) (h\<lparr>current_temp := 11.25\<rparr>)
           = (None, h\<lparr>current_temp := 12.75\<rparr>)"
    using assms(2-4) recount
    by (simp add: Beehive_handle_time_update_def Let_def outside_temp_impact_def)
  ultimately show ?thesis by (rule conjI)
qed

text \<open>The hive of \<^verbatim>\<open>test_time_update\<close> satisfies the hypotheses.\<close>

theorem time_update_example_witness:
  "current_temp test_time_update_hive = 10 \<and> outside_temp test_time_update_hive = 10
   \<and> buzzing_impact test_time_update_hive = 0.5 \<and> fanning_impact test_time_update_hive = 0.25
   \<and> get_number_bees_buzzing test_time_update_hive = 3
   \<and> get_number_bees_fanning test_time_update_hive = 1
   \<and> current_temp (snd (Beehive_handle_time_update 0 1 test_time_update_hive)) = 11.25
   \<and> current_temp (snd (Beehive_handle_time_update 1 2
         (snd (Beehive_handle_time_update 0 1 test_time_update_hive)))) = 12.75"
proof -
  have a: "current_temp test_time_update_hive = 10" "outside_temp test_time_update_hive = 10"
    "buzzing_impact test_time_update_hive = 0.5" "fanning_impact test_time_update_hive = 0.25"
    "get_number_bees_buzzing test_time_update_hive = 3"
    "get_number_bees_fanning test_time_update_hive = 1"
    by (simp_all add: test_time_update_hive_eq get_number_bees_buzzing_def
        get_number_bees_fanning_def)
  from time_update_example [OF a, of 0] a show ?thesis by simp
qed

section \<open>Claim C3: the counters and the recounts\<close>

text \<open>C3: after every sequence of bee created, bee destroyed and bee changed
  notifications delivered to a hive, each bee having its own identifier (identifiers
  are unique within a run, so no two created notifications carry the same one),
  \<^verbatim>\<open>number_bees\<close> is the number of creates minus the number of destroys, and
  \<^verbatim>\<open>number_bees_buzzing\<close> and \<^verbatim>\<open>number_bees_fanning\<close> equal the recounts over the
  tracked mapping. Nothing is asked of the destroyed and changed notifications: one
  for an identifier that is not tracked raises before the flag counters or the mapping
  are written, so the sequences the claim admits (destroys and changes only for
  previously created identifiers) are all covered.\<close>

theorem counters_agree_with_recount:
  assumes "distinct (created_guids evs)"
  shows "number_bees (run evs (Beehive_init start_temp buzzing fanning))
           = number_created evs - number_destroyed evs
       \<and> number_bees_buzzing (run evs (Beehive_init start_temp buzzing fanning))
           = get_number_bees_buzzing (run evs (Beehive_init start_temp buzzing fanning))
       \<and> number_bees_fanning (run evs (Beehive_init start_temp buzzing fanning))
           = get_number_bees_fanning (run evs (Beehive_init start_temp buzzing fanning))"
proof -
  let ?h = "Beehive_init start_temp buzzing fanning"
  have init: "set (map fst (known_bees ?h)) \<inter> set (created_guids evs) = {}"
    "distinct (map fst (known_bees ?h))"
    "number_bees_buzzing ?h = get_number_bees_buzzing ?h"
    "number_bees_fanning ?h = get_number_bees_fanning ?h"
    by (simp_all add: Beehive_init_def get_number_bees_buzzing_def get_number_bees_fanning_def)
  have "number_bees (run evs ?h) = number_created evs - number_destroyed evs"
    by (simp add: number_bees_run Beehive_init_def)
  moreover note run_counters [OF assms init]
  ultimately show ?thesis by (rule conjI)
qed

text \<open>The notifications of \<^verbatim>\<open>test_adding_and_removing_bees\<close>, followed by a change of
  bee 4, create the four identifiers 1 to 4 once each.\<close>

theorem counters_agree_with_recount_witness:
  "distinct (created_guids test_adding_and_removing_bees)
   \<and> number_bees (run test_adding_and_removing_bees (Beehive_init 10 0.25 0.25)) = 2
   \<and> number_bees_buzzing (run test_adding_and_removing_bees (Beehive_init 10 0.25 0.25)) = 1
   \<and> get_number_bees_buzzing (run test_adding_and_removing_bees (Beehive_init 10 0.25 0.25)) = 1
   \<and> number_bees_fanning (run test_adding_and_removing_bees (Beehive_init 10 0.25 0.25)) = 1
   \<and> get_number_bees_fanning (run test_adding_and_removing_bees (Beehive_init 10 0.25 0.25)) = 1"
proof -
  have ws: "distinct (created_guids test_adding_and_removing_bees)"
    by (simp add: test_adding_and_removing_bees_def)
  have nb: "number_created test_adding_and_removing_bees = 4"
    "number_destroyed test_adding_and_removing_bees = 2"
    by (simp_all add: test_adding_and_removing_bees_def)
  have rc: "get_number_bees_buzzing (run test_adding_and_removing_bees (Beehive_init 10 0.25 0.25)) = 1"
    "get_number_bees_fanning (run test_adding_and_removing_bees (Beehive_init 10 0.25 0.25)) = 1"
    by (simp_all add: test_adding_and_removing_bees_def Beehive_init_def handle_new_bee_def
        handle_dead_bee_def handle_bee_update_def Let_def get_number_bees_buzzing_def
        get_number_bees_fanning_def)
  from counters_agree_with_recount [OF ws, of 10 "0.25" "0.25"] ws nb rc show ?thesis by simp
qed

section \<open>Claim C4: the classification of a bee\<close>

text \<open>C4 as stated asks for fanning and not buzzing whenever the temperature is above
  \<^verbatim>\<open>fan_temp\<close>. The constructor accepts a bee with \<^verbatim>\<open>buzz_temp = 100\<close> and
  \<^verbatim>\<open>fan_temp = 32\<close>; at temperature 50, above its \<^verbatim>\<open>fan_temp\<close>, the first branch of the
  handler applies and the bee buzzes.\<close>

theorem inverted_bounds_bee_buzzes_above_fan_temp:
  "Bee_init (Some 100) (Some 32)
     = Inr \<lparr>is_buzzing = False, is_fanning = False, buzz_temp = 100, fan_temp = 32\<rparr>
   \<and> current_temp (Beehive_init 50 0.5 0.5)
       > fan_temp \<lparr>is_buzzing = False, is_fanning = False, buzz_temp = 100, fan_temp = 32\<rparr>
   \<and> is_buzzing (handle_temperature_change (Beehive_init 50 0.5 0.5) [''current_temp'']
         \<lparr>is_buzzing = False, is_fanning = False, buzz_temp = 100, fan_temp = 32\<rparr>)
   \<and> \<not> is_fanning (handle_temperature_change (Beehive_init 50 0.5 0.5) [''current_temp'']
         \<lparr>is_buzzing = False, is_fanning = False, buzz_temp = 100, fan_temp = 32\<rparr>)"
  by (simp add: Bee_init_def Beehive_init_def handle_temperature_change_def)

text \<open>C4, amended: on a hive-temperature-changed notification carrying
  \<^verbatim>\<open>current_temp\<close> = t, a bee with bounds (b, f) ends buzzing and not fanning if t < b;
  fanning and not buzzing if t > f and not t < b (every t > f when b \<le> f); idle if
  b < t < f. The two flags are never both set, and the resulting flags are a function
  of t, b and f alone: the prior flags do not matter.\<close>

theorem bee_temperature_classification:
  assumes "''current_temp'' \<in> set changed_properties"
  shows "(current_temp hive < buzz_temp self \<longrightarrow>
            is_buzzing (handle_temperature_change hive changed_properties self)
            \<and> \<not> is_fanning (handle_temperature_change hive changed_properties self))
       \<and> (\<not> current_temp hive < buzz_temp self \<and> current_temp hive > fan_temp self \<longrightarrow>
            is_fanning (handle_temperature_change hive changed_properties self)
            \<and> \<not> is_buzzing (handle_temperature_change hive changed_properties self))
       \<and> (buzz_temp self < current_temp hive \<and> current_temp hive < fan_temp self \<longrightarrow>
            \<not> is_buzzing (handle_temperature_change hive changed_properties self)
            \<and> \<not> is_fanning (handle_temperature_change hive changed_properties self))
       \<and> \<not> (is_buzzing (handle_temperature_change hive changed_properties self)
             \<and> is_fanning (handle_temperature_change hive changed_properties self))
       \<and> handle_temperature_change hive changed_properties self
           = self\<lparr>is_buzzing := current_temp hive < buzz_temp self,
                  is_fanning := \<not> current_temp hive < buzz_temp self
                                \<and> current_temp hive > fan_temp self\<rparr>"
  using assms by (simp add: handle_temperature_change_def Let_def)

text \<open>The three temperatures of \<^verbatim>\<open>test_bee_temp_change\<close> for a bee with bounds (32, 100).\<close>

theorem bee_temperature_classification_witness:
  "''current_temp'' \<in> set [''current_temp'']
   \<and> is_fanning (handle_temperature_change (Beehive_init 101 0.5 0.5) [''current_temp'']
        \<lparr>is_buzzing = True, is_fanning = False, buzz_temp = 32, fan_temp = 100\<rparr>)
   \<and> \<not> is_buzzing (handle_temperature_change (Beehive_init 101 0.5 0.5) [''current_temp'']
        \<lparr>is_buzzing = True, is_fanning = False, buzz_temp = 32, fan_temp = 100\<rparr>)
   \<and> is_buzzing (handle_temperature_change (Beehive_init 15 0.5 0.5) [''current_temp'']
        \<lparr>is_buzzing = False, is_fanning = True, buzz_temp = 32, fan_temp = 100\<rparr>)
   \<and> \<not> is_fanning (handle_temperature_change (Beehive_init 15 0.5 0.5) [''current_temp'']
        \<lparr>is_buzzing = False, is_fanning = True, buzz_temp = 32, fan_temp = 100\<rparr>)
   \<and> \<not> is_buzzing (handle_temperature_change (Beehive_init 45 0.5 0.5) [''current_temp'']
        \<lparr>is_buzzing = True, is_fanning = False, buzz_temp = 32, fan_temp = 100\<rparr>)
   \<and> \<not> is_fanning (handle_temperature_change (Beehive_init 45 0.5 0.5) [''current_temp'']
        \<lparr>is_buzzing = True, is_fanning = False, buzz_temp = 32, fan_temp = 100\<rparr>)"
proof -
  have m: "''current_temp'' \<in> set [''current_temp'']" by simp
  have t: "current_temp (Beehive_init x b f) = x" for x b f by (simp add: Beehive_init_def)
  from bee_temperature_classification [OF m, of "Beehive_init 101 0.5 0.5"
        "\<lparr>is_buzzing = True, is_fanning = False, buzz_temp = 32, fan_temp = 100\<rparr>"]
  have hot: "is_fanning (handle_temperature_change (Beehive_init 101 0.5 0.5) [''current_temp'']
        \<lparr>is_buzzing = True, is_fanning = False, buzz_temp = 32, fan_temp = 100\<rparr>)
   \<and> \<not> is_buzzing (handle_temperature_change (Beehive_init 101 0.5 0.5) [''current_temp'']
        \<lparr>is_buzzing = True, is_fanning = False, buzz_temp = 32, fan_temp = 100\<rparr>)"
    by (simp add: t)
  from bee_temperature_classification [OF m, of "Beehive_init 15 0.5 0.5"
        "\<lparr>is_buzzing = False, is_fanning = True, buzz_temp = 32, fan_temp = 100\<rparr>"]
  have cold: "is_buzzing (handle_temperature_change (Beehive_init 15 0.5 0.5) [''current_temp'']
        \<lparr>is_buzzing = False, is_fanning = True, buzz_temp = 32, fan_temp = 100\<rparr>)
   \<and> \<not> is_fanning (handle_temperature_change (Beehive_init 15 0.5 0.5) [''current_temp'']
        \<lparr>is_buzzing = False, is_fanning = True, buzz_temp = 32, fan_temp = 100\<rparr>)"
    by (simp add: t)
  from bee_temperature_classification [OF m, of "Beehive_init 45 0.5 0.5"
        "\<lparr>is_buzzing = True, is_fanning = False, buzz_temp = 32, fan_temp = 100\<rparr>"]
  have mild: "\<not> is_buzzing (handle_temperature_change (Beehive_init 45 0.5 0.5) [''current_temp'']
        \<lparr>is_buzzing = True, is_fanning = False, buzz_temp = 32, fan_temp = 100\<rparr>)
   \<and> \<not> is_fanning (handle_temperature_change (Beehive_init 45 0.5 0.5) [''current_temp'']
        \<lparr>is_buzzing = True, is_fanning = False, buzz_temp = 32, fan_temp = 100\<rparr>)"
    by (simp add: t)
  from m hot cold mild show ?thesis by blast
qed

section \<open>Claim C5: time-advance notifications that do not increase the time\<close>

text \<open>C5 as stated has every time-advance handler reject a new time that is not greater
  than the previous one. \<^verbatim>\<open>OutsideTemperature.handle_time_update\<close> and
  \<^verbatim>\<open>BeehiveDisplayModel.handle_time_update\<close> assert only that the previous time is not
  \<^verbatim>\<open>None\<close>: a notification from time 5 to time 5 is processed by both.\<close>

theorem non_increasing_time_is_processed:
  "\<not> (5::int) > 5
   \<and> OutsideTemperature_handle_time_update (Some 5) 5 (OutsideTemperature_make 0 720)
       = (None, (OutsideTemperature_make 0 720)\<lparr>current_temp_ot := 5\<rparr>)
   \<and> BeehiveDisplayModel_handle_time_update (Some 5) 5 BeehiveDisplayModel_init
       = (None, BeehiveDisplayModel_init\<lparr>previous_time_dm := 5, new_time_dm := 5\<rparr>)"
proof -
  have "OutsideTemperature_handle_time_update (Some 5) 5 (OutsideTemperature_make 0 720)
       = (None, (OutsideTemperature_make 0 720)\<lparr>current_temp_ot := 5\<rparr>)"
    by (simp add: time_update_lookup [OF minute_temps_length] minute_temps_ascending)
  moreover have "BeehiveDisplayModel_handle_time_update (Some 5) 5 BeehiveDisplayModel_init
       = (None, BeehiveDisplayModel_init\<lparr>previous_time_dm := 5, new_time_dm := 5\<rparr>)"
    by (simp add: BeehiveDisplayModel_handle_time_update_def)
  ultimately show ?thesis by simp
qed

text \<open>C5, amended: the time-advance handler of the Beehive rejects (assertion failure,
  state unchanged) a notification whose new time is not strictly greater than the
  previous time, and accepts every other. The handlers of OutsideTemperature and of the
  display model accept every new time, increasing or not, when the previous time is not
  \<^verbatim>\<open>None\<close>, and process it; they reject only a previous time that is \<^verbatim>\<open>None\<close>.\<close>

theorem time_update_rejection:
  "(new_time \<le> previous_time \<longrightarrow>
      Beehive_handle_time_update previous_time new_time hive = (Some AssertionError, hive))
   \<and> (previous_time < new_time \<longrightarrow>
      fst (Beehive_handle_time_update previous_time new_time hive) = None)
   \<and> OutsideTemperature_handle_time_update (Some previous_time) new_time
        (run_time_updates ts (OutsideTemperature_make lo hi))
       = (None, (run_time_updates ts (OutsideTemperature_make lo hi))
            \<lparr>current_temp_ot :=
               minute_temps (OutsideTemperature_make lo hi) ! nat (new_time mod 1440)\<rparr>)
   \<and> OutsideTemperature_handle_time_update None new_time ot = (Some AssertionError, ot)
   \<and> BeehiveDisplayModel_handle_time_update (Some previous_time) new_time dm
       = (None, dm\<lparr>previous_time_dm := previous_time, new_time_dm := new_time\<rparr>)
   \<and> BeehiveDisplayModel_handle_time_update None new_time dm = (Some AssertionError, dm)"
proof -
  have len: "length (minute_temps (run_time_updates ts (OutsideTemperature_make lo hi))) = 1440"
    by (simp only: run_time_updates_table minute_temps_length)
  have "new_time \<le> previous_time \<longrightarrow>
      Beehive_handle_time_update previous_time new_time hive = (Some AssertionError, hive)"
    by (simp add: Beehive_handle_time_update_def)
  moreover have "previous_time < new_time \<longrightarrow>
      fst (Beehive_handle_time_update previous_time new_time hive) = None"
    by (simp add: Beehive_handle_time_update_def Let_def)
  moreover have "OutsideTemperature_handle_time_update (Some previous_time) new_time
        (run_time_updates ts (OutsideTemperature_make lo hi))
       = (None, (run_time_updates ts (OutsideTemperature_make lo hi))
            \<lparr>current_temp_ot :=
               minute_temps (OutsideTemperature_make lo hi) ! nat (new_time mod 1440)\<rparr>)"
    using time_update_lookup [OF len] by (simp only: run_time_updates_table)
  moreover have "OutsideTemperature_handle_time_update None new_time ot = (Some AssertionError, ot)"
    by (simp add: OutsideTemperature_handle_time_update_def)
  moreover have "BeehiveDisplayModel_handle_time_update (Some previous_time) new_time dm
       = (None, dm\<lparr>previous_time_dm := previous_time, new_time_dm := new_time\<rparr>)"
    by (simp add: BeehiveDisplayModel_handle_time_update_def)
  moreover have "BeehiveDisplayModel_handle_time_update None new_time dm = (Some AssertionError, dm)"
    by (simp add: BeehiveDisplayModel_handle_time_update_def)
  ultimately show ?thesis by blast
qed

text \<open>A step back from time 2 to time 1, and a step forward from 1 to 2.\<close>

theorem time_update_rejection_witness:
  "(1::int) \<le> 2
   \<and> Beehive_handle_time_update 2 1 (Beehive_init 10 0.5 0.25)
       = (Some AssertionError, Beehive_init 10 0.5 0.25)
   \<and> (1::int) < 2
   \<and> fst (Beehive_handle_time_update 1 2 (Beehive_init 10 0.5 0.25)) = None
   \<and> fst (OutsideTemperature_handle_time_update (Some 2) 1 (OutsideTemperature_make 0 720)) = None"
proof -
  have a: "(1::int) \<le> 2" and b: "(1::int) < 2" by simp_all
  from time_update_rejection [of 1 2 "Beehive_init 10 0.5 0.25" "[]" 0 720] a
  have r1: "Beehive_handle_time_update 2 1 (Beehive_init 10 0.5 0.25)
       = (Some AssertionError, Beehive_init 10 0.5 0.25)"
    and r3: "fst (OutsideTemperature_handle_time_update (Some 2) 1 (OutsideTemperature_make 0 720)) = None"
    by simp_all
  from time_update_rejection [of 2 1 "Beehive_init 10 0.5 0.25"] b
  have r2: "fst (Beehive_handle_time_update 1 2 (Beehive_init 10 0.5 0.25)) = None"
    by simp
  from a b r1 r2 r3 show ?thesis by blast
qed

section \<open>Claim C6: a change for a bee that was never created\<close>

text \<open>C6: when the hive receives a changed notification for an identifier that no
  created notification has delivered, the handler fails (\<^verbatim>\<open>KeyError\<close>, or the assertion
  when no property is listed as changed), and the whole state of the hive, counters and
  tracked mapping included, is as before.\<close>

theorem bee_update_for_unknown_bee_rejected:
  assumes "guid bee \<notin> set (created_guids evs)"
  shows "handle_bee_update bee changed_properties (run evs (Beehive_init start_temp buzzing fanning))
     = (Some (if changed_properties = [] then AssertionError else KeyError),
        run evs (Beehive_init start_temp buzzing fanning))"
proof -
  let ?h = "run evs (Beehive_init start_temp buzzing fanning)"
  have "set (map fst (known_bees ?h))
          \<subseteq> set (map fst (known_bees (Beehive_init start_temp buzzing fanning)))
            \<union> set (created_guids evs)"
    by (rule keys_run)
  then have "set (map fst (known_bees ?h)) \<subseteq> set (created_guids evs)"
    by (simp add: Beehive_init_def)
  with assms have "guid bee \<notin> set (map fst (known_bees ?h))" by blast
  then have "map_of (known_bees ?h) (guid bee) = None" by (rule map_of_untracked)
  then show ?thesis by (simp add: handle_bee_update_rejected)
qed

text \<open>A hive that has seen bee 1 only, and a change for bee 2.\<close>

theorem bee_update_for_unknown_bee_rejected_witness:
  "guid \<lparr>is_buzzing = True, is_fanning = False, guid = 2\<rparr>
     \<notin> set (created_guids [Created \<lparr>is_buzzing = False, is_fanning = False, guid = 1\<rparr>])
   \<and> handle_bee_update \<lparr>is_buzzing = True, is_fanning = False, guid = 2\<rparr> [''is_buzzing'']
        (run [Created \<lparr>is_buzzing = False, is_fanning = False, guid = 1\<rparr>] (Beehive_init 10 1 1))
     = (Some KeyError,
        run [Created \<lparr>is_buzzing = False, is_fanning = False, guid = 1\<rparr>] (Beehive_init 10 1 1))
   \<and> number_bees_buzzing
        (run [Created \<lparr>is_buzzing = False, is_fanning = False, guid = 1\<rparr>] (Beehive_init 10 1 1)) = 0"
proof -
  have a: "guid \<lparr>is_buzzing = True, is_fanning = False, guid = 2\<rparr>
     \<notin> set (created_guids [Created \<lparr>is_buzzing = False, is_fanning = False, guid = 1\<rparr>])"
    by simp
  have z: "number_bees_buzzing
        (run [Created \<lparr>is_buzzing = False, is_fanning = False, guid = 1\<rparr>] (Beehive_init 10 1 1)) = 0"
    by (simp add: handle_new_bee_fields Beehive_init_def)
  from bee_update_for_unknown_bee_rejected [OF a, of "[''is_buzzing'']" 10 1 1] a z show ?thesis by simp
qed

section \<open>Claim C7: the samples of the test\<close>

text \<open>C7: for an OutsideTemperature constructed with \<^verbatim>\<open>min_temp = 0\<close> and
  \<^verbatim>\<open>max_temp = 720\<close>, the temperature is 0 at construction and after a time advance to 0,
  720 after a time advance to 720, 0 at 1440, 440 at 440 and 620 at 820, whatever time
  advances came before.\<close>

theorem outside_temperature_samples:
  "OutsideTemperature_init (Some 0) (Some 720) = Inr (OutsideTemperature_make 0 720)
   \<and> current_temp_ot (OutsideTemperature_make 0 720) = 0
   \<and> current_temp_ot (snd (OutsideTemperature_handle_time_update (Some p) 0
        (run_time_updates ts (OutsideTemperature_make 0 720)))) = 0
   \<and> current_temp_ot (snd (OutsideTemperature_handle_time_update (Some p) 720
        (run_time_updates ts (OutsideTemperature_make 0 720)))) = 720
   \<and> current_temp_ot (snd (OutsideTemperature_handle_time_update (Some p) 1440
        (run_time_updates ts (OutsideTemperature_make 0 720)))) = 0
   \<and> current_temp_ot (snd (OutsideTemperature_handle_time_update (Some p) 440
        (run_time_updates ts (OutsideTemperature_make 0 720)))) = 440
   \<and> current_temp_ot (snd (OutsideTemperature_handle_time_update (Some p) 820
        (run_time_updates ts (OutsideTemperature_make 0 720)))) = 620"
proof -
  let ?ot = "run_time_updates ts (OutsideTemperature_make 0 720)"
  have len: "length (minute_temps ?ot) = 1440"
    by (simp only: run_time_updates_table minute_temps_length)
  have look: "current_temp_ot (snd (OutsideTemperature_handle_time_update (Some p) t ?ot))
      = minute_temps (OutsideTemperature_make 0 720) ! nat (t mod 1440)" for t
    by (simp add: time_update_lookup [OF len] run_time_updates_table)
  have "OutsideTemperature_init (Some 0) (Some 720) = Inr (OutsideTemperature_make 0 720)"
    by (simp add: OutsideTemperature_init_def)
  moreover have "current_temp_ot (OutsideTemperature_make 0 720) = 0"
    by (simp add: OutsideTemperature_make_def Let_def nth_append)
  moreover have "current_temp_ot (snd (OutsideTemperature_handle_time_update (Some p) 0 ?ot)) = 0"
    unfolding look by (simp add: minute_temps_ascending)
  moreover have "current_temp_ot (snd (OutsideTemperature_handle_time_update (Some p) 720 ?ot)) = 720"
    unfolding look by (simp add: minute_temps_descending)
  moreover have "current_temp_ot (snd (OutsideTemperature_handle_time_update (Some p) 1440 ?ot)) = 0"
    unfolding look by (simp add: minute_temps_ascending)
  moreover have "current_temp_ot (snd (OutsideTemperature_handle_time_update (Some p) 440 ?ot)) = 440"
    unfolding look by (simp add: minute_temps_ascending)
  moreover have "current_temp_ot (snd (OutsideTemperature_handle_time_update (Some p) 820 ?ot)) = 620"
    unfolding look by (simp add: minute_temps_descending)
  ultimately show ?thesis by blast
qed

section \<open>Claim C8: the construction of a bee\<close>

text \<open>C8 as stated has every bee satisfy \<^verbatim>\<open>fan_temp > buzz_temp\<close>. The constructor does
  not compare the two thresholds: \<^verbatim>\<open>Bee(buzz_temp=100, fan_temp=32)\<close> is constructed.\<close>

theorem bee_init_accepts_inverted_bounds:
  "Bee_init (Some 100) (Some 32)
     = Inr \<lparr>is_buzzing = False, is_fanning = False, buzz_temp = 100, fan_temp = 32\<rparr>
   \<and> \<not> fan_temp \<lparr>is_buzzing = False, is_fanning = False, buzz_temp = 100, fan_temp = 32\<rparr>
       > buzz_temp \<lparr>is_buzzing = False, is_fanning = False, buzz_temp = 100, fan_temp = 32\<rparr>"
  by (simp add: Bee_init_def)

text \<open>C8, amended: the construction of a bee fails exactly when a threshold is missing
  or zero; otherwise it yields a bee with the two thresholds as given and with
  \<^verbatim>\<open>is_buzzing\<close> and \<^verbatim>\<open>is_fanning\<close> both false. The order of the thresholds is not
  checked, so \<^verbatim>\<open>fan_temp > buzz_temp\<close> holds for a bee only when its arguments had it.\<close>

theorem bee_init_failure_modes:
  "Bee_init None fan = Inl AssertionError
   \<and> Bee_init buzz None = Inl AssertionError
   \<and> Bee_init (Some b) (Some f) =
       (if b = 0 \<or> f = 0 then Inl AssertionError
        else Inr \<lparr>is_buzzing = False, is_fanning = False, buzz_temp = b, fan_temp = f\<rparr>)"
  by (simp add: Bee_init_def split: option.splits)

text \<open>The bee of \<^verbatim>\<open>test_bee_creation\<close>, and two rejected constructions.\<close>

theorem bee_init_failure_modes_witness:
  "Bee_init (Some 32) (Some 100)
     = Inr \<lparr>is_buzzing = False, is_fanning = False, buzz_temp = 32, fan_temp = 100\<rparr>
   \<and> Bee_init (Some 0) (Some 100) = Inl AssertionError
   \<and> Bee_init (Some 32) None = Inl AssertionError"
  using bee_init_failure_modes [of "Some 100" "Some 32" 32 100]
    bee_init_failure_modes [of "Some 100" "Some 32" 0 100] by simp

section \<open>Claim C9: repeated time advances to the same time\<close>

text \<open>C9: for every OutsideTemperature instance (constructed from any bounds, after any
  time advances), a time advance to t sets \<^verbatim>\<open>current_temp\<close> to the sample at index
  t mod 1440 of the table built at construction, and a second time advance to the same
  t, from whatever previous time, returns the same result and leaves the same state.\<close>

theorem outside_temperature_time_update_idempotent: 
  "OutsideTemperature_handle_time_update (Some p1) t (run_time_updates ts (OutsideTemperature_make lo hi))
     = (None, (run_time_updates ts (OutsideTemperature_make lo hi))
          \<lparr>current_temp_ot := minute_temps (OutsideTemperature_make lo hi) ! nat (t mod 1440)\<rparr>)
   \<and> OutsideTemperature_handle_time_update (Some p2) t
         (snd (OutsideTemperature_handle_time_update (Some p1) t
                (run_time_updates ts (OutsideTemperature_make lo hi))))
     = OutsideTemperature_handle_time_update (Some p1) t
                (run_time_updates ts (OutsideTemperature_make lo hi))"
proof -
  let ?ot = "run_time_updates ts (OutsideTemperature_make lo hi)"
  have len: "length (minute_temps ?ot) = 1440"
    by (simp only: run_time_updates_table minute_temps_length)
  have first: "OutsideTemperature_handle_time_update (Some p1) t ?ot
           = (None, ?ot\<lparr>current_temp_ot := minute_temps (OutsideTemperature_make lo hi) ! nat (t mod 1440)\<rparr>)"
    using time_update_lookup [OF len, of p1 t] by (simp only: run_time_updates_table)
  have len': "length (minute_temps (snd (OutsideTemperature_handle_time_update (Some p1) t ?ot))) = 1440"
    by (simp only: time_update_table len)
  have second: "OutsideTemperature_handle_time_update (Some p2) t
         (snd (OutsideTemperature_handle_time_update (Some p1) t ?ot))
       = OutsideTemperature_handle_time_update (Some p1) t ?ot"
    unfolding time_update_lookup [OF len'] unfolding first by (simp add: run_time_updates_table)
  from first second show ?thesis by (rule conjI)
qed

end
